theory Spec2Isabelle
  imports Main
begin

section \<open>Data model (types/auth.ts)\<close>

text \<open>
  \<^verbatim>\<open>UserRole\<close> is a TypeScript string enum: at run time a role is a JavaScript string,
  and the \<^verbatim>\<open>User\<close> object is whatever the server's JSON carries. The role is
  therefore a string here, and the five enum members are the five string constants.
\<close>

type_synonym UserRole = string

definition MANAGEMENT :: UserRole where "MANAGEMENT = ''management''"
definition DEVOPS :: UserRole where "DEVOPS = ''devops''"
definition QA :: UserRole where "QA = ''qa''"
definition DEV :: UserRole where "DEV = ''dev''"
definition OTHER :: UserRole where "OTHER = ''other''"

record User =
  id_user :: string
  username :: string
  email :: string
  firstName :: string
  lastName :: string
  role :: UserRole
  isActive :: bool
  lastLogin :: "string option"
  createdAt :: string
  updatedAt :: string

record LoginCredentials =
  cred_username :: string
  cred_password :: string

record AuthState =
  user :: "User option"
  isAuthenticated :: bool
  isLoading :: bool
  error :: "string option"
  token :: "string option"

record LoginResponse =
  lr_user :: User
  lr_token :: string
  lr_refreshToken :: string

text \<open>
  The table literal \<^verbatim>\<open>RolePermissions: Record<UserRole, string[]>\<close>, entry by entry in the
  order of the source. \<^verbatim>\<open>RolePermissions[r]\<close> is the own-property lookup \<open>map_of\<close>.
\<close>

definition RolePermissions :: "(UserRole \<times> string list) list" where
  "RolePermissions =
    [(MANAGEMENT,
        [''dashboard:read'', ''system-health:read'', ''performance:read'', ''alerts:read'',
         ''alerts:write'', ''users:read'', ''users:write'', ''settings:read'',
         ''settings:write'']),
     (DEVOPS,
        [''dashboard:read'', ''system-health:read'', ''performance:read'', ''alerts:read'',
         ''alerts:write'', ''settings:read'']),
     (QA,
        [''dashboard:read'', ''system-health:read'', ''performance:read'', ''settings:read'']),
     (DEV,
        [''dashboard:read'', ''system-health:read'', ''performance:read'', ''settings:read'']),
     (OTHER,
        [''dashboard:read'', ''system-health:read''])]"

section \<open>Requests, responses and errors\<close>

text \<open>
  An axios request configuration (with the \<^verbatim>\<open>Authorization\<close> header and the property
  \<^verbatim>\<open>_retry\<close> that the response interceptor adds) and a response. Every throw and every
  rejected promise of the source is a value: \<open>TypeError\<close> is what JavaScript raises when
  a method is called on \<^verbatim>\<open>undefined\<close>, \<open>Error\<close> is \<^verbatim>\<open>new Error(msg)\<close>, and an
  \<open>AxiosError\<close> carries \<^verbatim>\<open>error.config\<close> and \<^verbatim>\<open>error.response\<close>.
\<close>

record request =
  url :: string
  http_method :: string
  Authorization :: "string option"
  body :: "(string \<times> string) list"
  retry :: bool

record response =
  status :: nat
  data :: LoginResponse

datatype js_error =
    TypeError
  | Error string
  | AxiosError request "response option"

section \<open>Sidebar: hasPermission\<close>

text \<open>
  \<^verbatim>\<open>
  const hasPermission = (permission: string): boolean => {
    if (!user) return false;
    return RolePermissions[user.role].includes(permission);
  };
  \<close>
  A role with no entry makes \<^verbatim>\<open>RolePermissions[user.role]\<close> undefined (for a name inherited
  from \<^verbatim>\<open>Object.prototype\<close> it is a value without an \<^verbatim>\<open>includes\<close> method), and the
  call of \<^verbatim>\<open>includes\<close> raises a TypeError.
\<close>

definition hasPermission :: "User option \<Rightarrow> string \<Rightarrow> js_error + bool" where
  "hasPermission u permission =
     (case u of
        None \<Rightarrow> Inr False
      | Some usr \<Rightarrow>
          (case map_of RolePermissions (role usr) of
             None \<Rightarrow> Inl TypeError
           | Some ps \<Rightarrow> Inr (permission \<in> set ps)))"

section \<open>ProtectedRoute\<close>

text \<open>What the component returns: \<^verbatim>\<open>null\<close>, a \<^verbatim>\<open><Navigate to=... replace />\<close>, or its children.\<close>

datatype 'c element = Null | Navigate string | Fragment 'c

record 'c ProtectedRouteProps =
  children :: 'c
  allowedRoles :: "UserRole list option"

text \<open>
  \<^verbatim>\<open>
  if (isLoading) { return null; }
  if (!isAuthenticated || !user) { return <Navigate to="/login" replace />; }
  if (allowedRoles && !allowedRoles.includes(user.role)) {
    return <Navigate to="/dashboard" replace />;
  }
  return <>{children}</>;
  \<close>
  An array is truthy in JavaScript also when it is empty, so \<^verbatim>\<open>allowedRoles &&\<close> only
  tests that the property was passed.
\<close>

definition ProtectedRoute :: "'c ProtectedRouteProps \<Rightarrow> AuthState \<Rightarrow> 'c element" where
  "ProtectedRoute props st =
     (if isLoading st then Null
      else (case user st of
        None \<Rightarrow> Navigate ''/login''
      | Some usr \<Rightarrow>
          if \<not> isAuthenticated st then Navigate ''/login''
          else (case allowedRoles props of
            None \<Rightarrow> Fragment (children props)
          | Some rs \<Rightarrow>
              if role usr \<notin> set rs then Navigate ''/dashboard''
              else Fragment (children props))))"

section \<open>The session client (services/authService.ts)\<close>

subsection \<open>Browser state and the network\<close>

text \<open>
  The state the session client works on: \<^verbatim>\<open>localStorage\<close> (a map from keys to strings,
  \<^verbatim>\<open>getItem\<close> of a missing key is \<^verbatim>\<open>null\<close>), \<^verbatim>\<open>window.location.href\<close>, the store's
  \<^verbatim>\<open>state.auth\<close>, and the log of the HTTP calls made so far, each tagged with the axios
  instance that made it: \<open>ApiClient\<close> is the instance with the two interceptors,
  \<open>Axios\<close> the bare \<^verbatim>\<open>axios.post\<close> of the refresh call.

  The server is a parameter: any function from the calls made so far and the present
  call to a response, \<open>None\<close> when no response arrives (a network error, where
  \<^verbatim>\<open>error.response\<close> is undefined). The payload of a response is read at the type the
  source declares for it, \<^verbatim>\<open>LoginResponse\<close>. A request keeps \<^verbatim>\<open>_retry\<close>, the property
  the response interceptor puts on \<^verbatim>\<open>error.config\<close>, as the field \<open>retry\<close>; axios hands it
  the same configuration again when the request is re-dispatched.
\<close>

datatype client = ApiClient | Axios

type_synonym call = "client \<times> request"

type_synonym server = "call list \<Rightarrow> call \<Rightarrow> response option"

record world =
  localStorage :: "string \<rightharpoonup> string"
  location_href :: string
  auth :: AuthState
  sent :: "call list"

definition API_BASE_URL :: string where
  "API_BASE_URL = ''http://localhost:8000/api''"

definition getItem :: "string \<Rightarrow> world \<Rightarrow> string option" where
  "getItem k w = localStorage w k"

definition setItem :: "string \<Rightarrow> string \<Rightarrow> world \<Rightarrow> world" where
  "setItem k v w = w\<lparr>localStorage := (localStorage w)(k \<mapsto> v)\<rparr>"

definition removeItem :: "string \<Rightarrow> world \<Rightarrow> world" where
  "removeItem k w = w\<lparr>localStorage := (localStorage w)(k := None)\<rparr>"

text \<open>axios resolves a response whose status is in 200..299 and rejects every other.\<close>

definition ok :: "response option \<Rightarrow> bool" where
  "ok r = (case r of None \<Rightarrow> False | Some rsp \<Rightarrow> 200 \<le> status rsp \<and> status rsp < 300)"

definition send :: "server \<Rightarrow> client \<Rightarrow> request \<Rightarrow> world \<Rightarrow> response option \<times> world" where
  "send srv c req w = (srv (sent w) (c, req), w\<lparr>sent := sent w @ [(c, req)]\<rparr>)"

subsection \<open>The interceptors\<close>

text \<open>
  \<^verbatim>\<open>
  const token = localStorage.getItem('token');
  if (token) { config.headers.Authorization = `Bearer ${token}`; }
  return config;
  \<close>
  The empty string is falsy.
\<close>

definition request_interceptor :: "world \<Rightarrow> request \<Rightarrow> request" where
  "request_interceptor w config =
     (case getItem ''token'' w of
        None \<Rightarrow> config
      | Some tok \<Rightarrow>
          if tok \<noteq> [] then config\<lparr>Authorization := Some (''Bearer '' @ tok)\<rparr> else config)"

text \<open>The body of \<^verbatim>\<open>axios.post(`${API_BASE_URL}/auth/refresh`, {refresh_token: refreshToken})\<close>.\<close>

definition refresh_request :: "string \<Rightarrow> request" where
  "refresh_request refreshToken =
     \<lparr>url = API_BASE_URL @ ''/auth/refresh'', http_method = ''post'', Authorization = None,
      body = [(''refresh_token'', refreshToken)], retry = False\<rparr>"

definition axios_post :: "server \<Rightarrow> request \<Rightarrow> world \<Rightarrow> (js_error + response) \<times> world" where
  "axios_post srv req w =
     (case send srv Axios req w of
        (r, w1) \<Rightarrow>
          (case r of
             None \<Rightarrow> (Inl (AxiosError req r), w1)
           | Some rsp \<Rightarrow> if ok r then (Inr rsp, w1) else (Inl (AxiosError req r), w1)))"

text \<open>
  One call \<^verbatim>\<open>apiClient(config)\<close>: the request interceptor, the dispatch, and on a rejected
  response the error handler of the response interceptor:
  \<^verbatim>\<open>
  const originalRequest = error.config;
  if (error.response?.status === 401 && !originalRequest._retry) {
    originalRequest._retry = true;
    try {
      const refreshToken = localStorage.getItem('refreshToken');
      if (refreshToken) {
        const response = await axios.post(`${API_BASE_URL}/auth/refresh`, {...});
        const { token } = response.data;
        localStorage.setItem('token', token);
        originalRequest.headers.Authorization = `Bearer ${token}`;
        return apiClient(originalRequest);
      }
    } catch (refreshError) {
      localStorage.removeItem('token');
      localStorage.removeItem('refreshToken');
      window.location.href = '/login';
    }
  }
  return Promise.reject(error);
  \<close>
  The promise of \<^verbatim>\<open>apiClient(originalRequest)\<close> is returned without \<^verbatim>\<open>await\<close>, so its
  rejection goes to the caller and not to the \<^verbatim>\<open>catch\<close>. The error rejected at the end is
  the first one; its \<^verbatim>\<open>config\<close> is the object on which \<^verbatim>\<open>_retry\<close> was set.
\<close>

function apiClient :: "server \<Rightarrow> request \<Rightarrow> world \<Rightarrow> (js_error + response) \<times> world" where
  "apiClient srv config w =
     (let originalRequest = request_interceptor w config in
      case send srv ApiClient originalRequest w of
        (r, w1) \<Rightarrow>
          (case r of
             None \<Rightarrow> (Inl (AxiosError originalRequest r), w1)
           | Some rsp \<Rightarrow>
               if ok r then (Inr rsp, w1)
               else if status rsp = 401 \<and> \<not> retry originalRequest then
                 (case getItem ''refreshToken'' w1 of
                    None \<Rightarrow> (Inl (AxiosError (originalRequest\<lparr>retry := True\<rparr>) r), w1)
                  | Some refreshToken \<Rightarrow>
                      if refreshToken \<noteq> [] then
                        (case axios_post srv (refresh_request refreshToken) w1 of
                           (Inr response, w2) \<Rightarrow>
                             apiClient srv
                               (originalRequest
                                  \<lparr>retry := True,
                                   Authorization := Some (''Bearer '' @ lr_token (data response))\<rparr>)
                               (setItem ''token'' (lr_token (data response)) w2)
                         | (Inl refreshError, w2) \<Rightarrow>
                             (Inl (AxiosError (originalRequest\<lparr>retry := True\<rparr>) r),
                              (removeItem ''refreshToken'' (removeItem ''token'' w2))
                                \<lparr>location_href := ''/login''\<rparr>))
                      else (Inl (AxiosError (originalRequest\<lparr>retry := True\<rparr>) r), w1))
               else (Inl (AxiosError originalRequest r), w1)))"
  by pat_completeness auto
termination
  by (relation "measure (\<lambda>(srv, config, w). if retry config then 0 else 1)")
     (auto simp: request_interceptor_def split: option.splits if_splits)

declare apiClient.simps [simp del]

subsection \<open>authService\<close>

text \<open>
  \<^verbatim>\<open>apiClient.post(url, data)\<close> and \<^verbatim>\<open>apiClient.get(url)\<close> are \<^verbatim>\<open>apiClient\<close> on a fresh
  configuration.
\<close>

definition post_request :: "string \<Rightarrow> (string \<times> string) list \<Rightarrow> request" where
  "post_request u b =
     \<lparr>url = u, http_method = ''post'', Authorization = None, body = b, retry = False\<rparr>"

definition get_request :: "string \<Rightarrow> request" where
  "get_request u =
     \<lparr>url = u, http_method = ''get'', Authorization = None, body = [], retry = False\<rparr>"

text \<open>
  \<^verbatim>\<open>
  const response = await apiClient.post('/auth/login', credentials);
  const { user, token, refreshToken } = response.data;
  localStorage.setItem('token', token);
  localStorage.setItem('refreshToken', refreshToken);
  return { user, token, refreshToken };
  \<close>
  \<open>login_request\<close> is the configuration of the first line.
\<close>

definition login_request :: "LoginCredentials \<Rightarrow> request" where
  "login_request credentials =
     post_request ''/auth/login''
       [(''username'', cred_username credentials), (''password'', cred_password credentials)]"

definition authService_login ::
  "server \<Rightarrow> LoginCredentials \<Rightarrow> world \<Rightarrow> (js_error + LoginResponse) \<times> world" where
  "authService_login srv credentials w =
     (case apiClient srv (login_request credentials) w of
        (Inl e, w1) \<Rightarrow> (Inl e, w1)
      | (Inr response, w1) \<Rightarrow>
          (Inr (data response),
           setItem ''refreshToken'' (lr_refreshToken (data response))
             (setItem ''token'' (lr_token (data response)) w1)))"

text \<open>
  \<^verbatim>\<open>
  try { await apiClient.post('/auth/logout'); }
  finally { localStorage.removeItem('token'); localStorage.removeItem('refreshToken'); }
  \<close>
  The \<^verbatim>\<open>finally\<close> block runs on both paths; a rejection is thrown on after it.
\<close>

definition authService_logout :: "server \<Rightarrow> world \<Rightarrow> (js_error + unit) \<times> world" where
  "authService_logout srv w =
     (case apiClient srv (post_request ''/auth/logout'' []) w of
        (Inl e, w1) \<Rightarrow> (Inl e, removeItem ''refreshToken'' (removeItem ''token'' w1))
      | (Inr response, w1) \<Rightarrow> (Inr (), removeItem ''refreshToken'' (removeItem ''token'' w1)))"

text \<open>
  \<^verbatim>\<open>
  const refreshToken = localStorage.getItem('refreshToken');
  if (!refreshToken) { throw new Error('No refresh token available'); }
  const response = await axios.post(`${API_BASE_URL}/auth/refresh`, {refresh_token: refreshToken});
  const { user, token } = response.data;
  localStorage.setItem('token', token);
  return { user, token, refreshToken };
  \<close>
\<close>

definition authService_refreshToken ::
  "server \<Rightarrow> world \<Rightarrow> (js_error + LoginResponse) \<times> world" where
  "authService_refreshToken srv w =
     (case getItem ''refreshToken'' w of
        None \<Rightarrow> (Inl (Error ''No refresh token available''), w)
      | Some refreshToken \<Rightarrow>
          if refreshToken = [] then (Inl (Error ''No refresh token available''), w)
          else
            (case axios_post srv (refresh_request refreshToken) w of
               (Inl e, w1) \<Rightarrow> (Inl e, w1)
             | (Inr response, w1) \<Rightarrow>
                 (Inr \<lparr>lr_user = lr_user (data response), lr_token = lr_token (data response),
                       lr_refreshToken = refreshToken\<rparr>,
                  setItem ''token'' (lr_token (data response)) w1)))"

text \<open>
  \<^verbatim>\<open>
  const response = await apiClient.get('/auth/me');
  const { user, token } = response.data;
  const refreshToken = localStorage.getItem('refreshToken') || '';
  return { user, token, refreshToken };
  \<close>
\<close>

definition authService_checkAuthStatus ::
  "server \<Rightarrow> world \<Rightarrow> (js_error + LoginResponse) \<times> world" where
  "authService_checkAuthStatus srv w =
     (case apiClient srv (get_request ''/auth/me'') w of
        (Inl e, w1) \<Rightarrow> (Inl e, w1)
      | (Inr response, w1) \<Rightarrow>
          (Inr \<lparr>lr_user = lr_user (data response), lr_token = lr_token (data response),
                lr_refreshToken =
                  (case getItem ''refreshToken'' w1 of None \<Rightarrow> [] | Some r \<Rightarrow> r)\<rparr>,
           w1))"

subsection \<open>The session kept in the store\<close>

text \<open>
  Modelled from the spec: the store slice \<^verbatim>\<open>store/slices/authSlice\<close> (the \<^verbatim>\<open>login\<close> and
  \<^verbatim>\<open>logout\<close> thunks and the reducers that write \<^verbatim>\<open>state.auth\<close>) is missing from the
  sources; only the declaration of \<^verbatim>\<open>AuthState\<close> and the callers of the slice are there.
  The spec (4.3) says of the two operations: login "fails with InvalidCredentials on
  non-2xx response, leaving Session unauthenticated", with network errors "surfaced to the
  caller as a distinguishable error kind"; logout "regardless of that call's outcome,
  unconditionally clears both tokens from durable storage and resets Session to
  unauthenticated". The session of the spec is \<^verbatim>\<open>state.auth\<close>; the calls to the server and
  the storage are those of \<open>authService\<close> above. The fields \<open>isLoading\<close> and \<open>error\<close>,
  of which the spec says nothing, are left as they are.
\<close>

datatype session_error = InvalidCredentials | NetworkError

definition session_login ::
  "server \<Rightarrow> LoginCredentials \<Rightarrow> world \<Rightarrow> (session_error + AuthState) \<times> world" where
  "session_login srv credentials w =
     (case authService_login srv credentials w of
        (Inr d, w1) \<Rightarrow>
          (let s = (auth w1)\<lparr>user := Some (lr_user d), isAuthenticated := True,
                             token := Some (lr_token d)\<rparr>
           in (Inr s, w1\<lparr>auth := s\<rparr>))
      | (Inl e, w1) \<Rightarrow>
          (Inl (case e of AxiosError c None \<Rightarrow> NetworkError | _ \<Rightarrow> InvalidCredentials),
           w1\<lparr>auth := (auth w1)\<lparr>user := None, isAuthenticated := False, token := None\<rparr>\<rparr>))"

definition session_logout :: "server \<Rightarrow> world \<Rightarrow> world" where
  "session_logout srv w =
     (case authService_logout srv w of
        (r, w1) \<Rightarrow>
          w1\<lparr>auth := (auth w1)\<lparr>user := None, isAuthenticated := False, token := None\<rparr>\<rparr>)"

section \<open>Sample values\<close>

text \<open>
  The values at which the examples below are evaluated: a devops user; the store's state
  before login and after it; a payload; a browser with a given storage, at the location
  \<open>/\<close>, signed out, with nothing sent yet, and the one that holds both tokens; the
  user's credentials; the request of \<^verbatim>\<open>checkAuthStatus\<close>; and three servers: one that
  answers every call with a given status, one that answers 401 to every request of the
  client and accepts every refresh call, and one that is unreachable.
\<close>

definition ops_user :: User where
  "ops_user =
     \<lparr>id_user = ''7'', username = ''ops'', email = ''ops@example.org'', firstName = ''O'',
      lastName = ''P'', role = ''devops'', isActive = True, lastLogin = None,
      createdAt = ''2024-01-01'', updatedAt = ''2024-01-02''\<rparr>"

definition signed_out :: AuthState where
  "signed_out =
     \<lparr>user = None, isAuthenticated = False, isLoading = False, error = None, token = None\<rparr>"

definition signed_in :: AuthState where
  "signed_in =
     \<lparr>user = Some ops_user, isAuthenticated = True, isLoading = False, error = None,
      token = Some ''t0''\<rparr>"

definition payload :: LoginResponse where
  "payload = \<lparr>lr_user = ops_user, lr_token = ''t1'', lr_refreshToken = ''r1''\<rparr>"

definition browser :: "(string \<rightharpoonup> string) \<Rightarrow> world" where
  "browser store =
     \<lparr>localStorage = store, location_href = ''/'', auth = signed_out, sent = []\<rparr>"

definition both_tokens :: world where
  "both_tokens = browser [''token'' \<mapsto> ''t0'', ''refreshToken'' \<mapsto> ''r0'']"

definition ops_credentials :: LoginCredentials where
  "ops_credentials = \<lparr>cred_username = ''ops'', cred_password = ''pw''\<rparr>"

definition me_request :: request where
  "me_request = get_request ''/auth/me''"

definition answering :: "nat \<Rightarrow> server" where
  "answering s = (\<lambda>hist call. Some \<lparr>status = s, data = payload\<rparr>)"

definition refresh_only :: server where
  "refresh_only =
     (\<lambda>hist call. if fst call = Axios then Some \<lparr>status = 200, data = payload\<rparr>
                   else Some \<lparr>status = 401, data = payload\<rparr>)"

definition unreachable :: server where
  "unreachable = (\<lambda>hist call. None)"

section \<open>The permission table\<close>

lemma distinct_roles: "distinct (map fst RolePermissions)"
  by (simp add: RolePermissions_def MANAGEMENT_def DEVOPS_def QA_def DEV_def OTHER_def)

text \<open>
  C2 (as amended). The table has one entry for each of the five enumerated roles, in the
  order management, devops, qa, dev, other, and no role twice. For a user whose role is
  one of them the lookup returns that entry's permission list, and \<open>hasPermission\<close>
  returns whether the permission is in the list; it raises nothing.
\<close>

theorem RolePermissions_enumerated:
  "map fst RolePermissions = [MANAGEMENT, DEVOPS, QA, DEV, OTHER] \<and>
   distinct (map fst RolePermissions) \<and>
   ((r, ps) \<in> set RolePermissions \<and> role usr = r \<longrightarrow>
      map_of RolePermissions r = Some ps \<and>
      hasPermission (Some usr) permission = Inr (permission \<in> set ps))"
proof (intro conjI impI)
  show "map fst RolePermissions = [MANAGEMENT, DEVOPS, QA, DEV, OTHER]"
    by (simp add: RolePermissions_def)
  show "distinct (map fst RolePermissions)"
    by (rule distinct_roles)
next
  assume a: "(r, ps) \<in> set RolePermissions \<and> role usr = r"
  then have entry: "map_of RolePermissions r = Some ps"
    using distinct_roles by simp
  then show "map_of RolePermissions r = Some ps" .
  from a entry show "hasPermission (Some usr) permission = Inr (permission \<in> set ps)"
    by (simp add: hasPermission_def)
qed

text \<open>A devops user: \<open>users:write\<close> is refused and \<open>alerts:write\<close> granted.\<close>

theorem RolePermissions_enumerated_witness:
  "(DEVOPS,
    [''dashboard:read'', ''system-health:read'', ''performance:read'', ''alerts:read'',
     ''alerts:write'', ''settings:read'']) \<in> set RolePermissions \<and>
   role ops_user = DEVOPS \<and>
   map_of RolePermissions DEVOPS =
     Some [''dashboard:read'', ''system-health:read'', ''performance:read'', ''alerts:read'',
           ''alerts:write'', ''settings:read''] \<and>
   hasPermission (Some ops_user) ''users:write'' = Inr False \<and>
   hasPermission (Some ops_user) ''alerts:write'' = Inr True"
  using
    RolePermissions_enumerated [of DEVOPS
      "[''dashboard:read'', ''system-health:read'', ''performance:read'', ''alerts:read'',
        ''alerts:write'', ''settings:read'']" ops_user "''users:write''"]
    RolePermissions_enumerated [of DEVOPS
      "[''dashboard:read'', ''system-health:read'', ''performance:read'', ''alerts:read'',
        ''alerts:write'', ''settings:read'']" ops_user "''alerts:write''"]
  by (simp add: RolePermissions_def MANAGEMENT_def DEVOPS_def QA_def DEV_def OTHER_def
        ops_user_def)

text \<open>
  A role outside the enumeration has no entry, and \<open>hasPermission\<close> raises a TypeError
  for it: the lookup does not fall back to the empty set.
\<close>

theorem hasPermission_unmapped_role_counterexample:
  "map_of RolePermissions ''admin'' = None \<and>
   hasPermission (Some (ops_user\<lparr>role := ''admin''\<rparr>)) ''dashboard:read'' = Inl TypeError"
  by (simp add: hasPermission_def RolePermissions_def MANAGEMENT_def DEVOPS_def QA_def DEV_def
        OTHER_def ops_user_def)

text \<open>
  C9. When the session has no user, \<open>hasPermission\<close> returns false for every permission
  asked about; it raises nothing.
\<close>

theorem hasPermission_no_user: "hasPermission None permission = Inr False"
  by (simp add: hasPermission_def)

section \<open>The route guard\<close>

text \<open>
  C1 (as amended). Once loading has finished, an authenticated session with a user is
  shown the guarded content by every route that passes no \<open>allowedRoles\<close>, whatever the
  user's role. A route that passes the empty list is a restriction with no member: every
  role is redirected to \<open>/dashboard\<close>.
\<close>

theorem ProtectedRoute_unrestricted:
  "\<not> isLoading st \<and> isAuthenticated st \<and> user st = Some usr \<longrightarrow>
     ProtectedRoute \<lparr>children = c, allowedRoles = None\<rparr> st = Fragment c \<and>
     ProtectedRoute \<lparr>children = c, allowedRoles = Some []\<rparr> st = Navigate ''/dashboard''"
  by (simp add: ProtectedRoute_def)

theorem ProtectedRoute_unrestricted_witness:
  "\<not> isLoading signed_in \<and> isAuthenticated signed_in \<and> user signed_in = Some ops_user \<and>
   ProtectedRoute \<lparr>children = ''Settings'', allowedRoles = None\<rparr> signed_in
     = Fragment ''Settings'' \<and>
   ProtectedRoute \<lparr>children = ''Settings'', allowedRoles = Some []\<rparr> signed_in
     = Navigate ''/dashboard''"
  using ProtectedRoute_unrestricted [of signed_in ops_user "''Settings''"]
  by (simp add: signed_in_def)

text \<open>
  The same authenticated devops session: with the empty list it is sent to
  \<open>/dashboard\<close>, and while the store is loading it is shown nothing.
\<close>

theorem ProtectedRoute_empty_allowedRoles_counterexample:
  "isAuthenticated signed_in \<and> user signed_in = Some ops_user \<and>
   ProtectedRoute \<lparr>children = ''Settings'', allowedRoles = Some []\<rparr> signed_in
     = Navigate ''/dashboard'' \<and>
   ProtectedRoute \<lparr>children = ''Settings'', allowedRoles = None\<rparr>
     (signed_in\<lparr>isLoading := True\<rparr>) = Null"
  by (simp add: ProtectedRoute_def signed_in_def)

text \<open>
  C7 (as amended). While the store is loading the guard returns \<^verbatim>\<open>null\<close>. Once loading
  has finished: a session that is not authenticated is redirected to \<open>/login\<close>; an
  authenticated session whose user's role is not in a non-empty \<open>allowedRoles\<close> is
  redirected to \<open>/dashboard\<close>; in particular a devops session on a route restricted to
  management is redirected to \<open>/dashboard\<close>. In none of these cases is the guarded
  content rendered.
\<close>

theorem ProtectedRoute_redirects:
  "(isLoading st \<longrightarrow> ProtectedRoute props st = Null) \<and>
   (\<not> isLoading st \<longrightarrow>
     (\<not> isAuthenticated st \<longrightarrow> ProtectedRoute props st = Navigate ''/login'') \<and>
     (isAuthenticated st \<and> user st = Some usr \<and> allowedRoles props = Some rs \<and> rs \<noteq> [] \<and>
      role usr \<notin> set rs \<longrightarrow> ProtectedRoute props st = Navigate ''/dashboard'') \<and>
     (isAuthenticated st \<and> user st = Some usr \<and> role usr = DEVOPS \<longrightarrow>
        ProtectedRoute (props\<lparr>allowedRoles := Some [MANAGEMENT]\<rparr>) st
          = Navigate ''/dashboard''))"
  by (simp add: ProtectedRoute_def MANAGEMENT_def DEVOPS_def split: option.splits)

text \<open>
  The page of the users, which only management may see: signed out, signed in as a
  devops user, and signed in while the store is loading.
\<close>

theorem ProtectedRoute_redirects_witness:
  "\<not> isLoading signed_out \<and> \<not> isAuthenticated signed_out \<and>
   ProtectedRoute \<lparr>children = ''Users'', allowedRoles = Some [MANAGEMENT]\<rparr> signed_out
     = Navigate ''/login'' \<and>
   \<not> isLoading signed_in \<and> isAuthenticated signed_in \<and> user signed_in = Some ops_user \<and>
   role ops_user = DEVOPS \<and> role ops_user \<notin> set [MANAGEMENT] \<and>
   ProtectedRoute \<lparr>children = ''Users'', allowedRoles = Some [MANAGEMENT]\<rparr> signed_in
     = Navigate ''/dashboard'' \<and>
   isLoading (signed_in\<lparr>isLoading := True\<rparr>) \<and>
   ProtectedRoute \<lparr>children = ''Users'', allowedRoles = Some [MANAGEMENT]\<rparr>
     (signed_in\<lparr>isLoading := True\<rparr>) = Null"
  using
    ProtectedRoute_redirects [of signed_out
      "\<lparr>children = ''Users'', allowedRoles = Some [MANAGEMENT]\<rparr>"]
    ProtectedRoute_redirects [of signed_in
      "\<lparr>children = ''Users'', allowedRoles = Some [MANAGEMENT]\<rparr>" ops_user "[MANAGEMENT]"]
    ProtectedRoute_redirects [of "signed_in\<lparr>isLoading := True\<rparr>"
      "\<lparr>children = ''Users'', allowedRoles = Some [MANAGEMENT]\<rparr>"]
  by (simp add: MANAGEMENT_def DEVOPS_def signed_in_def signed_out_def ops_user_def)

text \<open>
  While the store is loading, a session that is not authenticated is not redirected:
  the component returns \<^verbatim>\<open>null\<close>.
\<close>

theorem ProtectedRoute_loading_counterexample:
  "\<not> isAuthenticated (signed_out\<lparr>isLoading := True\<rparr>) \<and>
   ProtectedRoute \<lparr>children = ''Users'', allowedRoles = Some [''management'']\<rparr>
     (signed_out\<lparr>isLoading := True\<rparr>) = Null"
  by (simp add: ProtectedRoute_def signed_out_def)

section \<open>The response interceptor\<close>

lemma retry_request_interceptor: "retry (request_interceptor w c) = retry c"
  by (simp add: request_interceptor_def split: option.splits)

lemma retry_set_again: "retry c \<Longrightarrow> c\<lparr>retry := True\<rparr> = c"
  by (cases c) simp

lemma ok_401: "status rsp = 401 \<Longrightarrow> \<not> ok (Some rsp)"
  by (simp add: ok_def)

text \<open>A request that already carries \<^verbatim>\<open>_retry\<close> is dispatched once and never refreshed.\<close>

lemma apiClient_retried:
  "retry config \<Longrightarrow>
   apiClient srv config w =
     (let c = request_interceptor w config; r = srv (sent w) (ApiClient, c);
          w1 = w\<lparr>sent := sent w @ [(ApiClient, c)]\<rparr>
      in (case r of None \<Rightarrow> (Inl (AxiosError c r), w1)
          | Some rsp \<Rightarrow> if ok r then (Inr rsp, w1) else (Inl (AxiosError c r), w1)))"
  by (subst apiClient.simps)
     (simp add: Let_def send_def retry_request_interceptor split: option.splits)

lemma request_interceptor_fresh_token:
  "request_interceptor (setItem ''token'' t w) (c\<lparr>Authorization := Some (''Bearer '' @ t)\<rparr>)
     = c\<lparr>Authorization := Some (''Bearer '' @ t)\<rparr>"
  by (simp add: request_interceptor_def getItem_def setItem_def)

lemma apiClient_resolved:
  assumes "srv (sent w) (ApiClient, request_interceptor w config) = Some rsp"
    and "ok (Some rsp)"
  shows "apiClient srv config w
           = (Inr rsp, w\<lparr>sent := sent w @ [(ApiClient, request_interceptor w config)]\<rparr>)"
  using assms
  by (subst apiClient.simps) (simp add: Let_def send_def)

lemma apiClient_rejected:
  assumes "srv (sent w) (ApiClient, request_interceptor w config) = Some rsp"
    and "\<not> ok (Some rsp)"
    and "status rsp \<noteq> 401 \<or> getItem ''refreshToken'' w = None"
  shows "\<exists>c. apiClient srv config w
           = (Inl (AxiosError c (Some rsp)),
              w\<lparr>sent := sent w @ [(ApiClient, request_interceptor w config)]\<rparr>)"
  using assms
  by (subst apiClient.simps) (auto simp: Let_def send_def getItem_def)

text \<open>After a successful refresh the request goes out once more, and that is the end.\<close>

lemma apiClient_refreshed:
  assumes r: "srv (sent w) (ApiClient, request_interceptor w config) = Some rsp"
    and s: "status rsp = 401" and nr: "\<not> retry config"
    and t: "getItem ''refreshToken'' w = Some rt" and ne: "rt \<noteq> []"
    and rr: "srv (sent w @ [(ApiClient, request_interceptor w config)]) (Axios, refresh_request rt)
               = Some rr"
    and okr: "ok (Some rr)"
  shows "apiClient srv config w =
     (let c2 = (request_interceptor w config)
                 \<lparr>retry := True, Authorization := Some (''Bearer '' @ lr_token (data rr))\<rparr>;
          hist = sent w @ [(ApiClient, request_interceptor w config), (Axios, refresh_request rt)];
          r2 = srv hist (ApiClient, c2);
          w3 = w\<lparr>localStorage := (localStorage w)(''token'' \<mapsto> lr_token (data rr)),
                 sent := hist @ [(ApiClient, c2)]\<rparr>
      in (case r2 of
            None \<Rightarrow> (Inl (AxiosError c2 r2), w3)
          | Some x \<Rightarrow> if ok r2 then (Inr x, w3) else (Inl (AxiosError c2 r2), w3)))"
proof -
  let ?c = "request_interceptor w config"
  let ?w1 = "w\<lparr>sent := sent w @ [(ApiClient, ?c)]\<rparr>"
  let ?w2 = "?w1\<lparr>sent := sent w @ [(ApiClient, ?c), (Axios, refresh_request rt)]\<rparr>"
  let ?c2 = "?c\<lparr>retry := True, Authorization := Some (''Bearer '' @ lr_token (data rr))\<rparr>"
  have post: "axios_post srv (refresh_request rt) ?w1 = (Inr rr, ?w2)"
    using rr okr by (simp add: axios_post_def send_def)
  have ri: "request_interceptor (setItem ''token'' (lr_token (data rr)) ?w2) ?c2 = ?c2"
    using request_interceptor_fresh_token [of "lr_token (data rr)" ?w2 "?c\<lparr>retry := True\<rparr>"]
    by simp
  have step: "apiClient srv config w
                = apiClient srv ?c2 (setItem ''token'' (lr_token (data rr)) ?w2)"
    using r s nr t ne ok_401 [OF s] post
    by (subst apiClient.simps)
       (simp add: Let_def send_def retry_request_interceptor getItem_def)
  let ?hist = "sent w @ [(ApiClient, ?c), (Axios, refresh_request rt)]"
  let ?wi = "setItem ''token'' (lr_token (data rr)) ?w2"
  have hist: "sent ?wi = ?hist"
    by (simp add: setItem_def)
  have fin: "?wi\<lparr>sent := ?hist @ [(ApiClient, ?c2)]\<rparr>
        = w\<lparr>localStorage := (localStorage w)(''token'' \<mapsto> lr_token (data rr)),
             sent := ?hist @ [(ApiClient, ?c2)]\<rparr>"
    by (simp add: setItem_def)
  have "apiClient srv ?c2 ?wi =
     (case srv ?hist (ApiClient, ?c2) of
        None \<Rightarrow> (Inl (AxiosError ?c2 (srv ?hist (ApiClient, ?c2))),
                 ?wi\<lparr>sent := ?hist @ [(ApiClient, ?c2)]\<rparr>)
      | Some x \<Rightarrow>
          if ok (srv ?hist (ApiClient, ?c2))
          then (Inr x, ?wi\<lparr>sent := ?hist @ [(ApiClient, ?c2)]\<rparr>)
          else (Inl (AxiosError ?c2 (srv ?hist (ApiClient, ?c2))),
                ?wi\<lparr>sent := ?hist @ [(ApiClient, ?c2)]\<rparr>))"
    by (subst apiClient_retried) (simp_all only: ri hist Let_def, simp)
  then show ?thesis
    unfolding step fin Let_def .
qed

lemma sent_apiClient:
  "\<exists>new. sent (snd (apiClient srv config w)) = sent w @ new \<and>
         length (filter (\<lambda>c. fst c = Axios) new) \<le> 1 \<and>
         length (filter (\<lambda>c. fst c = ApiClient) new) \<le> 2"
  by (subst apiClient.simps)
     (auto simp: Let_def send_def retry_request_interceptor apiClient_retried axios_post_def
        setItem_def removeItem_def split: option.splits prod.splits sum.splits)

text \<open>
  C3. One call of the client adds to the log of HTTP calls at most one refresh call (a
  call of the bare axios instance) and at most two dispatches of the request (the first
  and one re-dispatch), whatever the server answers. When the first answer is a 401, the
  request has not been retried, a refresh token is stored and the refresh succeeds, the
  log grows by exactly the request, the refresh call and the request again, now marked
  as retried and carrying the new access token, which is also in storage; the outcome of
  the call is the answer to that third call, a second 401 included, with nothing sent
  after it.
\<close>

theorem apiClient_single_retry:
  "(\<exists>new. sent (snd (apiClient srv config w)) = sent w @ new \<and>
          length (filter (\<lambda>c. fst c = Axios) new) \<le> 1 \<and>
          length (filter (\<lambda>c. fst c = ApiClient) new) \<le> 2) \<and>
   (srv (sent w) (ApiClient, request_interceptor w config) = Some rsp \<and> status rsp = 401 \<and>
    \<not> retry config \<and> getItem ''refreshToken'' w = Some rt \<and> rt \<noteq> [] \<and>
    srv (sent w @ [(ApiClient, request_interceptor w config)]) (Axios, refresh_request rt)
      = Some rr \<and> ok (Some rr) \<longrightarrow>
      (let c2 = (request_interceptor w config)
                  \<lparr>retry := True, Authorization := Some (''Bearer '' @ lr_token (data rr))\<rparr>;
           hist = sent w @ [(ApiClient, request_interceptor w config), (Axios, refresh_request rt)];
           r2 = srv hist (ApiClient, c2)
       in sent (snd (apiClient srv config w)) = hist @ [(ApiClient, c2)] \<and>
          getItem ''token'' (snd (apiClient srv config w)) = Some (lr_token (data rr)) \<and>
          fst (apiClient srv config w) =
            (case r2 of None \<Rightarrow> Inl (AxiosError c2 r2)
             | Some x \<Rightarrow> if ok r2 then Inr x else Inl (AxiosError c2 r2))))"
proof (intro conjI impI)
  show "\<exists>new. sent (snd (apiClient srv config w)) = sent w @ new \<and>
          length (filter (\<lambda>c. fst c = Axios) new) \<le> 1 \<and>
          length (filter (\<lambda>c. fst c = ApiClient) new) \<le> 2"
    by (rule sent_apiClient)
next
  assume h: "srv (sent w) (ApiClient, request_interceptor w config) = Some rsp \<and> status rsp = 401 \<and>
    \<not> retry config \<and> getItem ''refreshToken'' w = Some rt \<and> rt \<noteq> [] \<and>
    srv (sent w @ [(ApiClient, request_interceptor w config)]) (Axios, refresh_request rt)
      = Some rr \<and> ok (Some rr)"
  have "apiClient srv config w =
     (let c2 = (request_interceptor w config)
                 \<lparr>retry := True, Authorization := Some (''Bearer '' @ lr_token (data rr))\<rparr>;
          hist = sent w @ [(ApiClient, request_interceptor w config), (Axios, refresh_request rt)];
          r2 = srv hist (ApiClient, c2);
          w3 = w\<lparr>localStorage := (localStorage w)(''token'' \<mapsto> lr_token (data rr)),
                 sent := hist @ [(ApiClient, c2)]\<rparr>
      in (case r2 of
            None \<Rightarrow> (Inl (AxiosError c2 r2), w3)
          | Some x \<Rightarrow> if ok r2 then (Inr x, w3) else (Inl (AxiosError c2 r2), w3)))"
    by (rule apiClient_refreshed [of srv w config rsp rt rr]) (use h in simp_all)
  then show "let c2 = (request_interceptor w config)
                  \<lparr>retry := True, Authorization := Some (''Bearer '' @ lr_token (data rr))\<rparr>;
           hist = sent w @ [(ApiClient, request_interceptor w config), (Axios, refresh_request rt)];
           r2 = srv hist (ApiClient, c2)
       in sent (snd (apiClient srv config w)) = hist @ [(ApiClient, c2)] \<and>
          getItem ''token'' (snd (apiClient srv config w)) = Some (lr_token (data rr)) \<and>
          fst (apiClient srv config w) =
            (case r2 of None \<Rightarrow> Inl (AxiosError c2 r2)
             | Some x \<Rightarrow> if ok r2 then Inr x else Inl (AxiosError c2 r2))"
    by (simp add: Let_def getItem_def split: option.splits)
qed

text \<open>
  A server that answers 401 to every request and accepts every refresh: three calls are
  made, and the second 401 is handed to the caller.
\<close>

theorem apiClient_single_retry_witness:
  "refresh_only (sent both_tokens) (ApiClient, request_interceptor both_tokens me_request)
     = Some \<lparr>status = 401, data = payload\<rparr> \<and>
   status \<lparr>status = 401, data = payload\<rparr> = 401 \<and>
   \<not> retry me_request \<and>
   getItem ''refreshToken'' both_tokens = Some ''r0'' \<and>
   refresh_only (sent both_tokens @ [(ApiClient, request_interceptor both_tokens me_request)])
       (Axios, refresh_request ''r0'') = Some \<lparr>status = 200, data = payload\<rparr> \<and>
   ok (Some \<lparr>status = 200, data = payload\<rparr>) \<and>
   sent (snd (apiClient refresh_only me_request both_tokens))
     = [(ApiClient, me_request\<lparr>Authorization := Some ''Bearer t0''\<rparr>),
        (Axios, refresh_request ''r0''),
        (ApiClient, me_request\<lparr>Authorization := Some ''Bearer t1'', retry := True\<rparr>)] \<and>
   getItem ''token'' (snd (apiClient refresh_only me_request both_tokens)) = Some ''t1'' \<and>
   fst (apiClient refresh_only me_request both_tokens)
     = Inl (AxiosError (me_request\<lparr>Authorization := Some ''Bearer t1'', retry := True\<rparr>)
              (Some \<lparr>status = 401, data = payload\<rparr>))"
  using apiClient_single_retry [of refresh_only me_request both_tokens
      "\<lparr>status = 401, data = payload\<rparr>" "''r0''" "\<lparr>status = 200, data = payload\<rparr>"]
  by (simp add: request_interceptor_def getItem_def ok_def Let_def refresh_only_def
        both_tokens_def me_request_def browser_def get_request_def payload_def)

text \<open>
  C4. When a request that has not been retried is answered with a 401, a refresh token
  is stored and the refresh call fails (any answer outside 200..299, or none), both
  tokens are removed from storage, the location is set to \<open>/login\<close>, and the caller is
  rejected with the 401 error of the request; nothing is sent after the refresh call.
\<close>

theorem failed_refresh_clears_session:
  "srv (sent w) (ApiClient, request_interceptor w config) = Some rsp \<and> status rsp = 401 \<and>
   \<not> retry config \<and> getItem ''refreshToken'' w = Some rt \<and> rt \<noteq> [] \<and>
   \<not> ok (srv (sent w @ [(ApiClient, request_interceptor w config)]) (Axios, refresh_request rt))
   \<longrightarrow>
     fst (apiClient srv config w)
       = Inl (AxiosError ((request_interceptor w config)\<lparr>retry := True\<rparr>) (Some rsp)) \<and>
     getItem ''token'' (snd (apiClient srv config w)) = None \<and>
     getItem ''refreshToken'' (snd (apiClient srv config w)) = None \<and>
     location_href (snd (apiClient srv config w)) = ''/login'' \<and>
     sent (snd (apiClient srv config w))
       = sent w @ [(ApiClient, request_interceptor w config), (Axios, refresh_request rt)]"
proof (intro impI, elim conjE)
  let ?c = "request_interceptor w config"
  let ?w1 = "w\<lparr>sent := sent w @ [(ApiClient, ?c)]\<rparr>"
  assume r: "srv (sent w) (ApiClient, ?c) = Some rsp" and s: "status rsp = 401"
    and nr: "\<not> retry config" and t: "getItem ''refreshToken'' w = Some rt" and ne: "rt \<noteq> []"
    and f: "\<not> ok (srv (sent w @ [(ApiClient, ?c)]) (Axios, refresh_request rt))"
  have post: "axios_post srv (refresh_request rt) ?w1
      = (Inl (AxiosError (refresh_request rt)
                (srv (sent w @ [(ApiClient, ?c)]) (Axios, refresh_request rt))),
         ?w1\<lparr>sent := sent w @ [(ApiClient, ?c), (Axios, refresh_request rt)]\<rparr>)"
    using f by (auto simp: axios_post_def send_def split: option.splits)
  have "apiClient srv config w
          = (Inl (AxiosError (?c\<lparr>retry := True\<rparr>) (Some rsp)),
             (removeItem ''refreshToken''
                (removeItem ''token''
                   (?w1\<lparr>sent := sent w @ [(ApiClient, ?c), (Axios, refresh_request rt)]\<rparr>)))
               \<lparr>location_href := ''/login''\<rparr>)"
    using r s nr t ne ok_401 [OF s] post
    by (subst apiClient.simps)
       (simp add: Let_def send_def retry_request_interceptor getItem_def)
  then show "fst (apiClient srv config w) = Inl (AxiosError (?c\<lparr>retry := True\<rparr>) (Some rsp)) \<and>
     getItem ''token'' (snd (apiClient srv config w)) = None \<and>
     getItem ''refreshToken'' (snd (apiClient srv config w)) = None \<and>
     location_href (snd (apiClient srv config w)) = ''/login'' \<and>
     sent (snd (apiClient srv config w))
       = sent w @ [(ApiClient, ?c), (Axios, refresh_request rt)]"
    by (simp add: getItem_def removeItem_def)
qed

text \<open>A server that answers 401 to everything, the refresh call included.\<close>

theorem failed_refresh_clears_session_witness:
  "answering 401 (sent both_tokens) (ApiClient, request_interceptor both_tokens me_request)
     = Some \<lparr>status = 401, data = payload\<rparr> \<and>
   status \<lparr>status = 401, data = payload\<rparr> = 401 \<and>
   \<not> retry me_request \<and>
   getItem ''refreshToken'' both_tokens = Some ''r0'' \<and>
   \<not> ok (answering 401
            (sent both_tokens @ [(ApiClient, request_interceptor both_tokens me_request)])
            (Axios, refresh_request ''r0'')) \<and>
   fst (apiClient (answering 401) me_request both_tokens)
     = Inl (AxiosError (me_request\<lparr>Authorization := Some ''Bearer t0'', retry := True\<rparr>)
              (Some \<lparr>status = 401, data = payload\<rparr>)) \<and>
   getItem ''token'' (snd (apiClient (answering 401) me_request both_tokens)) = None \<and>
   getItem ''refreshToken'' (snd (apiClient (answering 401) me_request both_tokens)) = None \<and>
   location_href (snd (apiClient (answering 401) me_request both_tokens)) = ''/login'' \<and>
   sent (snd (apiClient (answering 401) me_request both_tokens))
     = [(ApiClient, me_request\<lparr>Authorization := Some ''Bearer t0''\<rparr>),
        (Axios, refresh_request ''r0'')]"
  using failed_refresh_clears_session [of "answering 401" both_tokens me_request
      "\<lparr>status = 401, data = payload\<rparr>" "''r0''"]
  by (simp add: request_interceptor_def getItem_def ok_def answering_def both_tokens_def
        me_request_def browser_def get_request_def)

text \<open>
  C10. When a request is answered with a 401 and storage holds no refresh token, the
  caller is rejected with that 401 error; no refresh call is made (the log grows by the
  request alone), and storage, the session state and the location are left as they were.
\<close>

theorem no_refresh_token_rejects:
  "srv (sent w) (ApiClient, request_interceptor w config) = Some rsp \<and> status rsp = 401 \<and>
   getItem ''refreshToken'' w = None \<longrightarrow>
     fst (apiClient srv config w)
       = Inl (AxiosError ((request_interceptor w config)\<lparr>retry := True\<rparr>) (Some rsp)) \<and>
     localStorage (snd (apiClient srv config w)) = localStorage w \<and>
     auth (snd (apiClient srv config w)) = auth w \<and>
     location_href (snd (apiClient srv config w)) = location_href w \<and>
     sent (snd (apiClient srv config w)) = sent w @ [(ApiClient, request_interceptor w config)]"
proof (intro impI, elim conjE)
  let ?c = "request_interceptor w config"
  assume r: "srv (sent w) (ApiClient, ?c) = Some rsp" and s: "status rsp = 401"
    and n: "getItem ''refreshToken'' w = None"
  have keep: "retry config \<Longrightarrow> ?c\<lparr>retry := True\<rparr> = ?c"
    using retry_set_again [of ?c] by (simp add: retry_request_interceptor)
  have "apiClient srv config w
          = (Inl (AxiosError (?c\<lparr>retry := True\<rparr>) (Some rsp)),
             w\<lparr>sent := sent w @ [(ApiClient, ?c)]\<rparr>)"
    using r s n keep ok_401 [OF s]
    by (subst apiClient.simps)
       (simp add: Let_def send_def retry_request_interceptor getItem_def)
  then show "fst (apiClient srv config w) = Inl (AxiosError (?c\<lparr>retry := True\<rparr>) (Some rsp)) \<and>
     localStorage (snd (apiClient srv config w)) = localStorage w \<and>
     auth (snd (apiClient srv config w)) = auth w \<and>
     location_href (snd (apiClient srv config w)) = location_href w \<and>
     sent (snd (apiClient srv config w)) = sent w @ [(ApiClient, ?c)]"
    by simp
qed

text \<open>An access token is stored, no refresh token, and the server answers 401.\<close>

theorem no_refresh_token_rejects_witness:
  "answering 401 (sent (browser [''token'' \<mapsto> ''t0'']))
       (ApiClient, request_interceptor (browser [''token'' \<mapsto> ''t0'']) me_request)
     = Some \<lparr>status = 401, data = payload\<rparr> \<and>
   status \<lparr>status = 401, data = payload\<rparr> = 401 \<and>
   getItem ''refreshToken'' (browser [''token'' \<mapsto> ''t0'']) = None \<and>
   fst (apiClient (answering 401) me_request (browser [''token'' \<mapsto> ''t0'']))
     = Inl (AxiosError (me_request\<lparr>Authorization := Some ''Bearer t0'', retry := True\<rparr>)
              (Some \<lparr>status = 401, data = payload\<rparr>)) \<and>
   localStorage (snd (apiClient (answering 401) me_request (browser [''token'' \<mapsto> ''t0''])))
     = [''token'' \<mapsto> ''t0''] \<and>
   auth (snd (apiClient (answering 401) me_request (browser [''token'' \<mapsto> ''t0'']))) = signed_out \<and>
   location_href (snd (apiClient (answering 401) me_request (browser [''token'' \<mapsto> ''t0'']))) = ''/'' \<and>
   sent (snd (apiClient (answering 401) me_request (browser [''token'' \<mapsto> ''t0''])))
     = [(ApiClient, me_request\<lparr>Authorization := Some ''Bearer t0''\<rparr>)]"
  using no_refresh_token_rejects [of "answering 401" "browser [''token'' \<mapsto> ''t0'']"
      me_request "\<lparr>status = 401, data = payload\<rparr>"]
  by (simp add: request_interceptor_def getItem_def answering_def me_request_def browser_def
        get_request_def)

section \<open>authService\<close>

text \<open>
  C8. When the stored refresh token is accepted (the refresh call, sent with it, gets an
  answer in 200..299), \<open>refreshToken()\<close> succeeds with the user and the access token
  of that answer and the refresh token it sent; storage is what it was with the entry
  \<open>token\<close> set to the access token of the answer, the entry \<open>refreshToken\<close> is
  untouched, and the refresh call is the only call made. \<open>refreshToken()\<close> succeeds in
  no other way: whenever it does, a refresh token was stored, the server accepted it,
  the access token returned and stored is the one of the server's answer, and the entry
  \<open>refreshToken\<close> after the call is the one before it.
\<close>

theorem refreshToken_keeps_refresh_token:
  "(authService_refreshToken srv w = (Inr resp, w') \<longrightarrow>
      (\<exists>rt rsp. getItem ''refreshToken'' w = Some rt \<and> rt \<noteq> [] \<and>
          srv (sent w) (Axios, refresh_request rt) = Some rsp \<and> ok (Some rsp) \<and>
          lr_token resp = lr_token (data rsp) \<and> lr_user resp = lr_user (data rsp)) \<and>
      localStorage w' = (localStorage w)(''token'' \<mapsto> lr_token resp) \<and>
      getItem ''token'' w' = Some (lr_token resp) \<and>
      getItem ''refreshToken'' w' = getItem ''refreshToken'' w \<and>
      getItem ''refreshToken'' w = Some (lr_refreshToken resp)) \<and>
   (getItem ''refreshToken'' w = Some rt \<and> rt \<noteq> [] \<and>
    srv (sent w) (Axios, refresh_request rt) = Some rsp \<and> ok (Some rsp) \<longrightarrow>
      fst (authService_refreshToken srv w)
        = Inr \<lparr>lr_user = lr_user (data rsp), lr_token = lr_token (data rsp),
               lr_refreshToken = rt\<rparr> \<and>
      localStorage (snd (authService_refreshToken srv w))
        = (localStorage w)(''token'' \<mapsto> lr_token (data rsp)) \<and>
      getItem ''token'' (snd (authService_refreshToken srv w)) = Some (lr_token (data rsp)) \<and>
      getItem ''refreshToken'' (snd (authService_refreshToken srv w)) = Some rt \<and>
      sent (snd (authService_refreshToken srv w)) = sent w @ [(Axios, refresh_request rt)])"
proof (intro conjI impI)
  assume "authService_refreshToken srv w = (Inr resp, w')"
  then show "\<exists>rt rsp. getItem ''refreshToken'' w = Some rt \<and> rt \<noteq> [] \<and>
          srv (sent w) (Axios, refresh_request rt) = Some rsp \<and> ok (Some rsp) \<and>
          lr_token resp = lr_token (data rsp) \<and> lr_user resp = lr_user (data rsp)"
    and "localStorage w' = (localStorage w)(''token'' \<mapsto> lr_token resp)"
    and "getItem ''token'' w' = Some (lr_token resp)"
    and "getItem ''refreshToken'' w' = getItem ''refreshToken'' w"
    and "getItem ''refreshToken'' w = Some (lr_refreshToken resp)"
    by (auto simp: authService_refreshToken_def axios_post_def send_def setItem_def getItem_def
          split: option.splits if_splits prod.splits sum.splits)
next
  assume h: "getItem ''refreshToken'' w = Some rt \<and> rt \<noteq> [] \<and>
    srv (sent w) (Axios, refresh_request rt) = Some rsp \<and> ok (Some rsp)"
  then have "authService_refreshToken srv w
      = (Inr \<lparr>lr_user = lr_user (data rsp), lr_token = lr_token (data rsp),
              lr_refreshToken = rt\<rparr>,
         setItem ''token'' (lr_token (data rsp)) (w\<lparr>sent := sent w @ [(Axios, refresh_request rt)]\<rparr>))"
    by (simp add: authService_refreshToken_def axios_post_def send_def)
  with h show "fst (authService_refreshToken srv w)
        = Inr \<lparr>lr_user = lr_user (data rsp), lr_token = lr_token (data rsp),
               lr_refreshToken = rt\<rparr>"
    and "localStorage (snd (authService_refreshToken srv w))
        = (localStorage w)(''token'' \<mapsto> lr_token (data rsp))"
    and "getItem ''token'' (snd (authService_refreshToken srv w)) = Some (lr_token (data rsp))"
    and "getItem ''refreshToken'' (snd (authService_refreshToken srv w)) = Some rt"
    and "sent (snd (authService_refreshToken srv w)) = sent w @ [(Axios, refresh_request rt)]"
    by (simp_all add: setItem_def getItem_def)
qed

text \<open>
  Both tokens stored and a server that accepts the refresh: the access token \<open>t0\<close> is
  replaced by the \<open>t1\<close> of the server's answer, and \<open>r0\<close> stays.
\<close>

theorem refreshToken_keeps_refresh_token_witness:
  "authService_refreshToken (answering 200) both_tokens
     = (Inr \<lparr>lr_user = ops_user, lr_token = ''t1'', lr_refreshToken = ''r0''\<rparr>,
        snd (authService_refreshToken (answering 200) both_tokens)) \<and>
   getItem ''refreshToken'' both_tokens = Some ''r0'' \<and>
   answering 200 (sent both_tokens) (Axios, refresh_request ''r0'')
     = Some \<lparr>status = 200, data = payload\<rparr> \<and>
   ok (Some \<lparr>status = 200, data = payload\<rparr>) \<and>
   lr_token (data \<lparr>status = 200, data = payload\<rparr>) = ''t1'' \<and>
   getItem ''token'' both_tokens = Some ''t0'' \<and>
   getItem ''token'' (snd (authService_refreshToken (answering 200) both_tokens)) = Some ''t1'' \<and>
   getItem ''refreshToken'' (snd (authService_refreshToken (answering 200) both_tokens))
     = Some ''r0'' \<and>
   sent (snd (authService_refreshToken (answering 200) both_tokens))
     = [(Axios, refresh_request ''r0'')]"
  using refreshToken_keeps_refresh_token [of "answering 200" both_tokens
      "\<lparr>lr_user = ops_user, lr_token = ''t1'', lr_refreshToken = ''r0''\<rparr>"
      "snd (authService_refreshToken (answering 200) both_tokens)" "''r0''"
      "\<lparr>status = 200, data = payload\<rparr>"]
  by (simp add: authService_refreshToken_def axios_post_def send_def refresh_request_def
        getItem_def setItem_def ok_def answering_def both_tokens_def browser_def payload_def)

text \<open>
  C5. Whatever the server does with the invalidation call (a 2xx answer, any other
  answer, or none), after \<open>logout\<close> storage holds neither \<open>token\<close> nor \<open>refreshToken\<close>,
  and the session is not authenticated and has no user.
\<close>

theorem logout_always_clears:
  "getItem ''token'' (snd (authService_logout srv w)) = None \<and>
   getItem ''refreshToken'' (snd (authService_logout srv w)) = None \<and>
   localStorage (session_logout srv w) = localStorage (snd (authService_logout srv w)) \<and>
   \<not> isAuthenticated (auth (session_logout srv w)) \<and>
   user (auth (session_logout srv w)) = None"
  by (simp add: authService_logout_def session_logout_def getItem_def removeItem_def
        split: prod.splits sum.splits)

text \<open>With the network down the call is rejected, and storage is cleared all the same.\<close>

theorem logout_always_clears_witness:
  "fst (authService_logout unreachable both_tokens)
     = Inl (AxiosError
              ((post_request ''/auth/logout'' [])\<lparr>Authorization := Some ''Bearer t0''\<rparr>) None) \<and>
   getItem ''token'' (snd (authService_logout unreachable both_tokens)) = None \<and>
   getItem ''refreshToken'' (snd (authService_logout unreachable both_tokens)) = None \<and>
   \<not> isAuthenticated (auth (session_logout unreachable both_tokens))"
  using logout_always_clears [of unreachable both_tokens]
  by (simp add: authService_logout_def apiClient.simps request_interceptor_def send_def
        axios_post_def refresh_request_def post_request_def login_request_def getItem_def
        setItem_def removeItem_def ok_def Let_def
        unreachable_def both_tokens_def browser_def)

text \<open>
  C6 (as amended). Whenever \<open>login\<close> succeeds, storage holds the access token and the
  refresh token returned, and the session is authenticated with the user returned; a
  2xx answer to the login request makes it succeed with the payload of that answer.
  When the answer is outside 200..299 and either its status is not 401 or no refresh
  token is stored, login fails with the error of that answer (InvalidCredentials to the
  caller of the session), the session is not authenticated, and storage is unchanged.
\<close>

theorem login_outcomes:
  "(authService_login srv credentials w = (Inr d, w') \<longrightarrow>
      getItem ''token'' w' = Some (lr_token d) \<and>
      getItem ''refreshToken'' w' = Some (lr_refreshToken d) \<and>
      isAuthenticated (auth (snd (session_login srv credentials w))) \<and>
      user (auth (snd (session_login srv credentials w))) = Some (lr_user d) \<and>
      localStorage (snd (session_login srv credentials w)) = localStorage w') \<and>
   (srv (sent w) (ApiClient, request_interceptor w (login_request credentials)) = Some rsp \<and>
    ok (Some rsp) \<longrightarrow>
      fst (authService_login srv credentials w) = Inr (data rsp) \<and>
      localStorage (snd (authService_login srv credentials w))
        = (localStorage w)(''token'' \<mapsto> lr_token (data rsp),
                           ''refreshToken'' \<mapsto> lr_refreshToken (data rsp))) \<and>
   (srv (sent w) (ApiClient, request_interceptor w (login_request credentials)) = Some rsp \<and>
    \<not> ok (Some rsp) \<and> (status rsp \<noteq> 401 \<or> getItem ''refreshToken'' w = None) \<longrightarrow>
      (\<exists>c. fst (authService_login srv credentials w) = Inl (AxiosError c (Some rsp))) \<and>
      localStorage (snd (authService_login srv credentials w)) = localStorage w \<and>
      fst (session_login srv credentials w) = Inl InvalidCredentials \<and>
      \<not> isAuthenticated (auth (snd (session_login srv credentials w))) \<and>
      localStorage (snd (session_login srv credentials w)) = localStorage w)"
proof (intro conjI impI)
  assume "authService_login srv credentials w = (Inr d, w')"
  then show "getItem ''token'' w' = Some (lr_token d)"
    and "getItem ''refreshToken'' w' = Some (lr_refreshToken d)"
    and "isAuthenticated (auth (snd (session_login srv credentials w)))"
    and "user (auth (snd (session_login srv credentials w))) = Some (lr_user d)"
    and "localStorage (snd (session_login srv credentials w)) = localStorage w'"
    by (auto simp: authService_login_def session_login_def getItem_def setItem_def Let_def
          split: prod.splits sum.splits)
next
  assume "srv (sent w) (ApiClient, request_interceptor w (login_request credentials)) = Some rsp \<and>
    ok (Some rsp)"
  then have "apiClient srv (login_request credentials) w
      = (Inr rsp,
         w\<lparr>sent := sent w @ [(ApiClient, request_interceptor w (login_request credentials))]\<rparr>)"
    by (intro apiClient_resolved) simp_all
  then show "fst (authService_login srv credentials w) = Inr (data rsp)"
    and "localStorage (snd (authService_login srv credentials w))
        = (localStorage w)(''token'' \<mapsto> lr_token (data rsp),
                           ''refreshToken'' \<mapsto> lr_refreshToken (data rsp))"
    by (simp_all add: authService_login_def setItem_def)
next
  assume h: "srv (sent w) (ApiClient, request_interceptor w (login_request credentials)) = Some rsp \<and>
    \<not> ok (Some rsp) \<and> (status rsp \<noteq> 401 \<or> getItem ''refreshToken'' w = None)"
  obtain c where c: "apiClient srv (login_request credentials) w
      = (Inl (AxiosError c (Some rsp)),
         w\<lparr>sent := sent w @ [(ApiClient, request_interceptor w (login_request credentials))]\<rparr>)"
    using apiClient_rejected [of srv w "login_request credentials" rsp] h
    by (elim conjE exE) auto
  from c show "\<exists>c. fst (authService_login srv credentials w) = Inl (AxiosError c (Some rsp))"
    by (simp add: authService_login_def)
  from c show "localStorage (snd (authService_login srv credentials w)) = localStorage w"
    and "fst (session_login srv credentials w) = Inl InvalidCredentials"
    and "\<not> isAuthenticated (auth (snd (session_login srv credentials w)))"
    and "localStorage (snd (session_login srv credentials w)) = localStorage w"
    by (simp_all add: authService_login_def session_login_def)
qed

text \<open>
  Storage empty at the start: a server that accepts the login, and one that answers 401.
\<close>

theorem login_outcomes_witness:
  "authService_login (answering 200) ops_credentials (browser Map.empty)
     = (Inr payload, snd (authService_login (answering 200) ops_credentials (browser Map.empty))) \<and>
   answering 200 (sent (browser Map.empty))
       (ApiClient, request_interceptor (browser Map.empty) (login_request ops_credentials))
     = Some \<lparr>status = 200, data = payload\<rparr> \<and>
   ok (Some \<lparr>status = 200, data = payload\<rparr>) \<and>
   localStorage (snd (authService_login (answering 200) ops_credentials (browser Map.empty)))
     = [''token'' \<mapsto> ''t1'', ''refreshToken'' \<mapsto> ''r1''] \<and>
   isAuthenticated (auth (snd (session_login (answering 200) ops_credentials (browser Map.empty)))) \<and>
   user (auth (snd (session_login (answering 200) ops_credentials (browser Map.empty))))
     = Some ops_user \<and>
   answering 401 (sent (browser Map.empty))
       (ApiClient, request_interceptor (browser Map.empty) (login_request ops_credentials))
     = Some \<lparr>status = 401, data = payload\<rparr> \<and>
   \<not> ok (Some \<lparr>status = 401, data = payload\<rparr>) \<and>
   getItem ''refreshToken'' (browser Map.empty) = None \<and>
   localStorage (snd (authService_login (answering 401) ops_credentials (browser Map.empty)))
     = Map.empty \<and>
   fst (session_login (answering 401) ops_credentials (browser Map.empty))
     = Inl InvalidCredentials \<and>
   \<not> isAuthenticated
       (auth (snd (session_login (answering 401) ops_credentials (browser Map.empty)))) \<and>
   localStorage (snd (session_login (answering 401) ops_credentials (browser Map.empty)))
     = Map.empty"
  using
    login_outcomes [of "answering 200" ops_credentials "browser Map.empty" payload
      "snd (authService_login (answering 200) ops_credentials (browser Map.empty))"
      "\<lparr>status = 200, data = payload\<rparr>"]
    login_outcomes [of "answering 401" ops_credentials "browser Map.empty" payload
      "snd (authService_login (answering 401) ops_credentials (browser Map.empty))"
      "\<lparr>status = 401, data = payload\<rparr>"]
  by (simp add: authService_login_def apiClient.simps request_interceptor_def send_def
        axios_post_def refresh_request_def post_request_def login_request_def getItem_def
        setItem_def removeItem_def ok_def Let_def
        answering_def browser_def payload_def ops_credentials_def)

text \<open>
  A refresh token left in storage, a server that answers 401 to the login and accepts
  the refresh: the response interceptor refreshes and sends the login again, login
  fails with the second 401, and the access token of the refresh has been written.
\<close>

theorem login_failure_writes_token_counterexample:
  "refresh_only [] (ApiClient, login_request ops_credentials)
     = Some \<lparr>status = 401, data = payload\<rparr> \<and>
   fst (authService_login refresh_only ops_credentials (browser [''refreshToken'' \<mapsto> ''r0'']))
     = Inl (AxiosError
              ((login_request ops_credentials)
                 \<lparr>retry := True, Authorization := Some ''Bearer t1''\<rparr>)
              (Some \<lparr>status = 401, data = payload\<rparr>)) \<and>
   getItem ''token'' (browser [''refreshToken'' \<mapsto> ''r0'']) = None \<and>
   getItem ''token''
       (snd (authService_login refresh_only ops_credentials
               (browser [''refreshToken'' \<mapsto> ''r0''])))
     = Some ''t1''"
  by (simp add: authService_login_def apiClient.simps request_interceptor_def send_def
        axios_post_def refresh_request_def post_request_def login_request_def getItem_def
        setItem_def removeItem_def ok_def Let_def
        refresh_only_def browser_def payload_def ops_credentials_def)

end
